theory Spec2Isabelle
  imports Complex_Main
begin

section \<open>Python strings\<close>

text \<open>
  A Python \<^verbatim>\<open>str\<close> is modelled as an Isabelle \<^typ>\<open>string\<close>; a character stands for the
  code point of the same number, so the utterances of this development are the strings over
  the code points U+0000 .. U+00FF. On this range \<^verbatim>\<open>str.lower()\<close> works character by
  character and agrees with the lower-casing that \<^verbatim>\<open>re.IGNORECASE\<close> applies, and
  \<^verbatim>\<open>str.strip()\<close> removes the twelve characters for which \<^verbatim>\<open>str.isspace()\<close> holds.
\<close>

definition py_tolower :: "char \<Rightarrow> char" where
  "py_tolower c =
     (let n = (of_char c :: nat)
      in if (65 \<le> n \<and> n \<le> 90) \<or> (192 \<le> n \<and> n \<le> 222 \<and> n \<noteq> 215)
         then char_of (n + 32) else c)"

definition lower :: "string \<Rightarrow> string" where
  "lower s = map py_tolower s"

definition isspace :: "char \<Rightarrow> bool" where
  "isspace c =
     (let n = (of_char c :: nat)
      in (9 \<le> n \<and> n \<le> 13) \<or> (28 \<le> n \<and> n \<le> 32) \<or> n = 133 \<or> n = 160)"

definition strip :: "string \<Rightarrow> string" where
  "strip s = rev (dropWhile isspace (rev (dropWhile isspace s)))"

definition newline :: char where
  "newline = CHR 0x0A"

section \<open>Regular expressions of the command table\<close>

text \<open>
  The fragment of Python's \<^verbatim>\<open>re\<close> syntax that the command table uses, compiled with
  \<^verbatim>\<open>re.IGNORECASE\<close> and without \<^verbatim>\<open>re.MULTILINE\<close> or \<^verbatim>\<open>re.DOTALL\<close>:
  \<^verbatim>\<open>^\<close>, \<^verbatim>\<open>$\<close>, literal text, \<^verbatim>\<open>.+\<close>, concatenation, \<^verbatim>\<open>|\<close> and capturing groups.
\<close>

datatype regex =
    Bol
  | Eol
  | Lit string
  | AnyPlus
  | Seq regex regex
  | Alt regex regex
  | Group nat regex

type_synonym groups = "nat \<rightharpoonup> string"

text \<open>
  A matcher state is the position reached, the input that remains there and the groups
  captured so far. \<open>run r st\<close> lists the states in which a match of \<open>r\<close> started in \<open>st\<close>
  can end, in the order in which the backtracking matcher tries them: the left branch of
  \<^verbatim>\<open>|\<close> first, the longest \<^verbatim>\<open>.+\<close> first. \<^verbatim>\<open>.\<close> matches any character but a newline;
  \<^verbatim>\<open>$\<close> matches at the end of the input and before a newline that ends the input.
\<close>

fun run :: "regex \<Rightarrow> nat \<times> string \<times> groups \<Rightarrow> (nat \<times> string \<times> groups) list" where
  "run Bol (i, s, g) = (if i = 0 then [(i, s, g)] else [])"
| "run Eol (i, s, g) = (if s = [] \<or> s = [newline] then [(i, s, g)] else [])"
| "run (Lit p) (i, s, g) =
     (if length p \<le> length s \<and> lower (take (length p) s) = lower p
      then [(i + length p, drop (length p) s, g)] else [])"
| "run AnyPlus (i, s, g) =
     map (\<lambda>k. (i + k, drop k s, g))
       (rev [1 ..< Suc (length (takeWhile (\<lambda>c. c \<noteq> newline) s))])"
| "run (Seq a b) st = concat (map (run b) (run a st))"
| "run (Alt a b) st = run a st @ run b st"
| "run (Group n a) (i, s, g) =
     map (\<lambda>(j, s', g'). (j, s', g'(n \<mapsto> take (j - i) s))) (run a (i, s, g))"

text \<open>\<^verbatim>\<open>pattern.match(text)\<close>: the first way to match at position 0, or \<^verbatim>\<open>None\<close>.\<close>

definition re_match :: "regex \<Rightarrow> string \<Rightarrow> groups option" where
  "re_match r s = (case run r (0, s, Map.empty) of [] \<Rightarrow> None | (j, s', g) # _ \<Rightarrow> Some g)"

section \<open>The command table and the matcher (nlp\_processor.py)\<close>

text \<open>\<^verbatim>\<open>self.command_patterns\<close>, a dict, in its insertion order.\<close>

definition command_patterns :: "(string \<times> regex) list" where
  "command_patterns =
    [(''help'',
        Alt (Seq Bol (Seq (Lit ''help'') Eol))
       (Alt (Seq Bol (Seq (Lit ''what can you do'') Eol))
            (Seq Bol (Lit ''what commands'')))),
     (''exit'',
        Alt (Seq Bol (Seq (Lit ''exit'') Eol))
       (Alt (Seq Bol (Seq (Lit ''quit'') Eol))
            (Seq Bol (Seq (Lit ''goodbye'') Eol)))),
     (''repeat'',
        Alt (Seq Bol (Seq (Lit ''repeat'') Eol))
       (Alt (Seq Bol (Seq (Lit ''say that again'') Eol))
            (Seq Bol (Lit ''what did you say'')))),
     (''set_user_type'',
        Seq Bol (Seq (Lit ''i am a '')
       (Seq (Group 1 (Alt (Lit ''staff'') (Lit ''student''))) Eol))),
     (''set_user_name'',
        Seq Bol (Seq (Group 1 (Alt (Lit ''set'') (Alt (Lit ''call'') (Lit ''change''))))
       (Seq (Lit '' my name to '') (Seq (Group 2 AnyPlus) Eol)))),
     (''get_assistant_name'',
        Alt (Seq Bol (Seq (Lit ''what is your name'') Eol))
            (Seq Bol (Seq (Lit ''who are you'') Eol)))]"

text \<open>
  The loop of \<^verbatim>\<open>_detect_command_intent\<close> over the items of a table. The source returns the
  pair \<^verbatim>\<open>(intent, match)\<close> or the pair \<^verbatim>\<open>(None, None)\<close>; the model returns
  \<open>Some (intent, match)\<close> or \<open>None\<close>.
\<close>

fun detect_in :: "(string \<times> regex) list \<Rightarrow> string \<Rightarrow> (string \<times> groups) option" where
  "detect_in [] query_text = None"
| "detect_in ((intent, pattern) # rest) query_text =
     (case re_match pattern query_text of
        Some m \<Rightarrow> Some (intent, m)
      | None \<Rightarrow> detect_in rest query_text)"

definition detect_command_intent :: "string \<Rightarrow> (string \<times> groups) option" where
  "detect_command_intent query_text = detect_in command_patterns query_text"

section \<open>Configuration (config.py)\<close>

text \<open>The settings that the modelled code reads; their values come from the environment.\<close>

record config =
  RAG_API_ENDPOINT :: string
  RAG_API_KEY :: string
  RAG_API_TIMEOUT :: int
  DEFAULT_USER_NAME :: string
  DEFAULT_USER_TYPE :: string

text \<open>The defaults that config.py uses when the environment sets nothing.\<close>

definition default_config :: config where
  "default_config =
     \<lparr>RAG_API_ENDPOINT = ''https://primary-production-5212.up.railway.app/webhook/api/v1/chat/message'',
      RAG_API_KEY = [],
      RAG_API_TIMEOUT = 30,
      DEFAULT_USER_NAME = ''User'',
      DEFAULT_USER_TYPE = ''student''\<rparr>"

section \<open>The answer-service client (rag\_client/api\_client.py)\<close>

text \<open>
  The HTTP exchange is the environment of the program. A request is what
  \<^verbatim>\<open>requests.post\<close> is given; an outcome is what the exchange and the decoding of the
  reply do, by the handler of \<^verbatim>\<open>query\<close> that catches it: an exception that is a
  \<^verbatim>\<open>RequestException\<close> (no connection, timeout, a status that is not 2xx), one that is
  a \<^verbatim>\<open>json.JSONDecodeError\<close> and no \<^verbatim>\<open>RequestException\<close>, any other exception raised
  inside the \<^verbatim>\<open>try\<close> block (a reply that is JSON but no object), or a reply that is a
  JSON object, read at the clock time given. The exceptions carry their \<^verbatim>\<open>str(e)\<close>.
\<close>

record request =
  req_endpoint :: string
  req_authorization :: "string option"
  req_timeout :: int
  req_name :: string
  req_user_type :: string
  req_message :: string
  req_context :: "string option"

record reply =
  reply_response :: "string option"
  reply_confidence :: "real option"
  reply_sources :: "string list option"
  reply_timestamp :: "real option"

datatype http_outcome =
    RequestException string
  | JSONDecodeError string
  | OtherException string
  | Reply reply real

record rag_result =
  rr_answer :: string
  rr_confidence :: real
  rr_sources :: "string list"
  rr_timestamp :: real
  rr_query :: string
  rr_raw_response :: reply

record rag_client =
  endpoint :: string
  api_key :: string
  timeout :: int
  sent :: "request list"

text \<open>Python's \<^verbatim>\<open>a or b\<close> on an optional string and a string or integer.\<close>

definition or_else :: "string option \<Rightarrow> string \<Rightarrow> string" where
  "or_else a b = (case a of None \<Rightarrow> b | Some x \<Rightarrow> if x = [] then b else x)"

definition or_else_int :: "int option \<Rightarrow> int \<Rightarrow> int" where
  "or_else_int a b = (case a of None \<Rightarrow> b | Some x \<Rightarrow> if x = 0 then b else x)"

definition RAGAPIClient_init ::
  "config \<Rightarrow> string option \<Rightarrow> string option \<Rightarrow> int option \<Rightarrow> rag_client" where
  "RAGAPIClient_init cfg endpoint' api_key' timeout' =
     \<lparr>endpoint = or_else endpoint' (RAG_API_ENDPOINT cfg),
      api_key = or_else api_key' (RAG_API_KEY cfg),
      timeout = or_else_int timeout' (RAG_API_TIMEOUT cfg),
      sent = []\<rparr>"

text \<open>
  \<^verbatim>\<open>RAGAPIClient.query\<close>. The result is \<open>Inl\<close> of the message of the exception raised, or
  \<open>Inr\<close> of the result dictionary; the client comes back with the request it has sent.
\<close>

definition RAGAPIClient_query ::
  "config \<Rightarrow> (request \<Rightarrow> http_outcome) \<Rightarrow> rag_client \<Rightarrow> string \<Rightarrow> string option \<Rightarrow>
     string option \<Rightarrow> string option \<Rightarrow> (string + rag_result) \<times> rag_client" where
  "RAGAPIClient_query cfg net self query_text context' user_name' user_type' =
     (if query_text = [] then (Inl ''Query text cannot be empty'', self)
      else
        let payload =
              \<lparr>req_endpoint = endpoint self,
               req_authorization =
                 (if api_key self \<noteq> [] then Some (''Bearer '' @ api_key self) else None),
               req_timeout = timeout self,
               req_name = or_else user_name' (DEFAULT_USER_NAME cfg),
               req_user_type = or_else user_type' (DEFAULT_USER_TYPE cfg),
               req_message = query_text,
               req_context = (case context' of None \<Rightarrow> None
                              | Some c \<Rightarrow> if c = [] then None else Some c)\<rparr>;
            self' = self\<lparr>sent := sent self @ [payload]\<rparr>
        in case net payload of
             RequestException e \<Rightarrow> (Inl (''Failed to connect to RAG API: '' @ e), self')
           | JSONDecodeError e \<Rightarrow> (Inl (''Invalid response from RAG API: '' @ e), self')
           | OtherException e \<Rightarrow> (Inl e, self')
           | Reply response_data now \<Rightarrow>
               (Inr \<lparr>rr_answer = (case reply_response response_data of None \<Rightarrow> [] | Some a \<Rightarrow> a),
                     rr_confidence = (case reply_confidence response_data of None \<Rightarrow> 0 | Some c \<Rightarrow> c),
                     rr_sources = (case reply_sources response_data of None \<Rightarrow> [] | Some l \<Rightarrow> l),
                     rr_timestamp = (case reply_timestamp response_data of None \<Rightarrow> now | Some t \<Rightarrow> t),
                     rr_query = query_text,
                     rr_raw_response = response_data\<rparr>, self'))"

section \<open>The query processor (voice\_assistant/nlp\_processor.py)\<close>

record nlp_processor =
  rag_client :: rag_client
  nlp_user_name :: string
  nlp_user_type :: string

definition NLPProcessor_init :: "config \<Rightarrow> rag_client \<Rightarrow> nlp_processor" where
  "NLPProcessor_init cfg client =
     \<lparr>rag_client = client,
      nlp_user_name = DEFAULT_USER_NAME cfg,
      nlp_user_type = DEFAULT_USER_TYPE cfg\<rparr>"

text \<open>
  The dictionary that \<^verbatim>\<open>process_query\<close> returns. The keys \<^verbatim>\<open>query\<close>,
  \<^verbatim>\<open>response\<close>, \<^verbatim>\<open>success\<close> and \<^verbatim>\<open>is_command\<close> are always there; an optional key is
  \<open>None\<close> when absent, and a flag that is only ever stored as \<^verbatim>\<open>True\<close> is \<open>False\<close> when
  absent.
\<close>

record response_data =
  query :: string
  response :: string
  success :: bool
  is_command :: bool
  intent :: "string option"
  confidence :: "real option"
  sources :: "string list option"
  raw_response :: "rag_result option"
  error :: "string option"
  should_exit :: bool
  should_repeat :: bool
  user_type_changed :: bool
  user_name_changed :: bool

definition mk_response :: "string \<Rightarrow> string \<Rightarrow> bool \<Rightarrow> bool \<Rightarrow> response_data" where
  "mk_response q r ok cmd =
     \<lparr>query = q, response = r, success = ok, is_command = cmd, intent = None,
      confidence = None, sources = None, raw_response = None, error = None,
      should_exit = False, should_repeat = False,
      user_type_changed = False, user_name_changed = False\<rparr>"

definition double_quote :: string where
  "double_quote = [CHR 0x22]"

definition apostrophe :: string where
  "apostrophe = [CHR 0x27]"

definition help_text_literal :: string where
  "help_text_literal = concat
     [[newline],
      ''        Here are some things you can ask me:'', [newline],
      ''        '', [newline],
      ''        - Ask any question and I'', apostrophe, ''ll try to find the answer'', [newline],
      ''        - '', double_quote, ''Set my name to [name]'', double_quote,
                  '' to change your name'', [newline],
      ''        - '', double_quote, ''I am a [staff/student]'', double_quote,
                  '' to change your user type'', [newline],
      ''        - '', double_quote, ''What'', apostrophe, ''s your name?'', double_quote,
                  '' to learn about me'', [newline],
      ''        - '', double_quote, ''Repeat'', double_quote,
                  '' to repeat my last response'', [newline],
      ''        - '', double_quote, ''Exit'', double_quote, '' or '',
                  double_quote, ''Quit'', double_quote, '' to exit'', [newline],
      ''        '', [newline],
      ''        How can I help you today?'', [newline],
      ''        '']"

definition get_help_text :: string where
  "get_help_text = strip help_text_literal"

text \<open>
  \<^verbatim>\<open>match.group(k)\<close> is \<^verbatim>\<open>None\<close> for a group that took no part in the match, and a method
  call on \<^verbatim>\<open>None\<close> raises \<^verbatim>\<open>AttributeError\<close>.
\<close>

datatype py_error = AttributeError

definition handle_command ::
  "string \<Rightarrow> groups \<Rightarrow> string \<Rightarrow> nlp_processor \<Rightarrow> py_error + response_data \<times> nlp_processor" where
  "handle_command intent' match query_text self =
     (let response0 = (mk_response query_text [] True True)\<lparr>intent := Some intent'\<rparr>
      in if intent' = ''help'' then
           Inr (response0\<lparr>response := get_help_text\<rparr>, self)
         else if intent' = ''exit'' then
           Inr (response0\<lparr>response := ''Goodbye! Have a great day.'', should_exit := True\<rparr>, self)
         else if intent' = ''repeat'' then
           Inr (response0\<lparr>response := ''I'' @ apostrophe @ ''ll repeat my last response.'',
                          should_repeat := True\<rparr>, self)
         else if intent' = ''set_user_type'' then
           (case match 1 of
              None \<Rightarrow> Inl AttributeError
            | Some g1 \<Rightarrow>
                let user_type = lower g1
                in Inr (response0\<lparr>response :=
                            ''I'' @ apostrophe @ ''ve updated your user type to '' @ user_type @ ''.'',
                          user_type_changed := True\<rparr>,
                        self\<lparr>nlp_user_type := user_type\<rparr>))
         else if intent' = ''set_user_name'' then
           (case match 2 of
              None \<Rightarrow> Inl AttributeError
            | Some g2 \<Rightarrow>
                let user_name = strip g2
                in Inr (response0\<lparr>response :=
                            ''I'' @ apostrophe @ ''ll call you '' @ user_name @ '' from now on.'',
                          user_name_changed := True\<rparr>,
                        self\<lparr>nlp_user_name := user_name\<rparr>))
         else if intent' = ''get_assistant_name'' then
           Inr (response0\<lparr>response :=
                  ''I'' @ apostrophe @ ''m your AI voice assistant. You can call me Assistant.''\<rparr>, self)
         else
           Inr (response0\<lparr>response := ''I'' @ apostrophe @ ''m not sure how to handle that command.'',
                          success := False\<rparr>, self))"

definition apology :: string where
  "apology = ''I'' @ apostrophe @ ''m so'' @ ''rry, I encountered an error while processing your request.''"

text \<open>
  \<^verbatim>\<open>process_query\<close>. The command handler runs outside the \<^verbatim>\<open>try\<close> block, so its
  exception leaves the function; an exception of the client is caught and becomes a record.
\<close>

definition process_query ::
  "config \<Rightarrow> (request \<Rightarrow> http_outcome) \<Rightarrow> string \<Rightarrow> nlp_processor \<Rightarrow>
     py_error + response_data \<times> nlp_processor" where
  "process_query cfg net query_text self =
     (if query_text = [] then
        Inr (mk_response [] (''I didn'' @ apostrophe @ ''t catch that. Could you please repeat?'')
               False False, self)
      else
        let dispatch =
              (case RAGAPIClient_query cfg net (rag_client self) query_text None
                      (Some (nlp_user_name self)) (Some (nlp_user_type self)) of
                 (Inr rag_response, client) \<Rightarrow>
                   Inr ((mk_response query_text (rr_answer rag_response) True False)
                          \<lparr>confidence := Some (rr_confidence rag_response),
                           sources := Some (rr_sources rag_response),
                           raw_response := Some rag_response\<rparr>,
                        self\<lparr>rag_client := client\<rparr>)
               | (Inl e, client) \<Rightarrow>
                   Inr ((mk_response query_text apology False False)\<lparr>error := Some e\<rparr>,
                        self\<lparr>rag_client := client\<rparr>))
        in case detect_command_intent query_text of
             Some (intent', match) \<Rightarrow>
               if intent' \<noteq> [] then handle_command intent' match query_text self else dispatch
           | None \<Rightarrow> dispatch)"

section \<open>The assistant manager (voice\_assistant/assistant\_manager.py)\<close>

record history_entry =
  h_query :: string
  h_response :: response_data
  h_user_name :: string
  h_user_type :: string

text \<open>
  What the manager does to the world around it, in the order in which it does it: the
  callbacks it fires, the listening thread it starts, and its calls of
  \<^verbatim>\<open>speech_recognizer.recognize_from_microphone\<close> and \<^verbatim>\<open>text_to_speech.speak\<close>. The
  requests to the answer service are in the client's \<open>sent\<close>.
\<close>

datatype event =
    Listening_start_callback
  | Listening_end_callback
  | Speaking_start_callback
  | Speaking_end_callback
  | Response_callback response_data
  | User_info_change_callback string string
  | Thread_start
  | Recognize_from_microphone
  | Speak string

text \<open>
  The fields of \<^verbatim>\<open>AssistantManager\<close>. A callback field says whether a callback is set; the
  call of a callback is an event of the trace. \<open>recognizer_is_listening\<close> is the flag
  \<^verbatim>\<open>is_listening\<close> of the \<^verbatim>\<open>SpeechRecognizer\<close>.
\<close>

record assistant_manager =
  nlp_processor :: nlp_processor
  recognizer_is_listening :: bool
  is_listening :: bool
  is_speaking :: bool
  last_query :: "string option"
  last_response :: "response_data option"
  conversation_history :: "history_entry list"
  user_name :: string
  user_type :: string
  on_listening_start_callback :: bool
  on_listening_end_callback :: bool
  on_speaking_start_callback :: bool
  on_speaking_end_callback :: bool
  on_response_callback :: bool
  on_user_info_change_callback :: bool
  trace :: "event list"

definition AssistantManager_init :: "config \<Rightarrow> assistant_manager" where
  "AssistantManager_init cfg =
     \<lparr>nlp_processor = NLPProcessor_init cfg (RAGAPIClient_init cfg None None None),
      recognizer_is_listening = False,
      is_listening = False,
      is_speaking = False,
      last_query = None,
      last_response = None,
      conversation_history = [],
      user_name = DEFAULT_USER_NAME cfg,
      user_type = DEFAULT_USER_TYPE cfg,
      on_listening_start_callback = False,
      on_listening_end_callback = False,
      on_speaking_start_callback = False,
      on_speaking_end_callback = False,
      on_response_callback = False,
      on_user_info_change_callback = False,
      trace = []\<rparr>"

definition set_callbacks ::
  "bool \<Rightarrow> bool \<Rightarrow> bool \<Rightarrow> bool \<Rightarrow> bool \<Rightarrow> bool \<Rightarrow> assistant_manager \<Rightarrow> assistant_manager" where
  "set_callbacks on_listening_start on_listening_end on_speaking_start on_speaking_end
     on_response on_user_info_change self =
     self\<lparr>on_listening_start_callback := on_listening_start,
          on_listening_end_callback := on_listening_end,
          on_speaking_start_callback := on_speaking_start,
          on_speaking_end_callback := on_speaking_end,
          on_response_callback := on_response,
          on_user_info_change_callback := on_user_info_change\<rparr>"

definition emit :: "event \<Rightarrow> assistant_manager \<Rightarrow> assistant_manager" where
  "emit e self = self\<lparr>trace := trace self @ [e]\<rparr>"

definition on_listening_start :: "assistant_manager \<Rightarrow> assistant_manager" where
  "on_listening_start self =
     (if on_listening_start_callback self then emit Listening_start_callback self else self)"

definition on_listening_end :: "assistant_manager \<Rightarrow> assistant_manager" where
  "on_listening_end self =
     (let self1 = self\<lparr>is_listening := False\<rparr>
      in if on_listening_end_callback self1 then emit Listening_end_callback self1 else self1)"

definition on_speaking_start :: "assistant_manager \<Rightarrow> assistant_manager" where
  "on_speaking_start self =
     (if on_speaking_start_callback self then emit Speaking_start_callback self else self)"

definition on_speaking_end :: "assistant_manager \<Rightarrow> assistant_manager" where
  "on_speaking_end self =
     (let self1 = self\<lparr>is_speaking := False\<rparr>
      in if on_speaking_end_callback self1 then emit Speaking_end_callback self1 else self1)"

definition stop_speaking :: "assistant_manager \<Rightarrow> assistant_manager" where
  "stop_speaking self = self\<lparr>is_speaking := False\<rparr>"

text \<open>
  \<^verbatim>\<open>_speak_response\<close> sets the flag and hands the text to \<^verbatim>\<open>text_to_speech.speak\<close>, which
  plays it on a thread of its own.
\<close>

definition speak_response :: "string \<Rightarrow> assistant_manager \<Rightarrow> assistant_manager" where
  "speak_response response_text self = emit (Speak response_text) (self\<lparr>is_speaking := True\<rparr>)"

definition repeat_last_response :: "assistant_manager \<Rightarrow> assistant_manager" where
  "repeat_last_response self =
     (case last_response self of
        Some r \<Rightarrow> speak_response (response r) self
      | None \<Rightarrow> speak_response (''I haven'' @ apostrophe @ ''t said anything yet.'') self)"

text \<open>
  The statements that \<^verbatim>\<open>process_text_input\<close> (from \<^verbatim>\<open>self.last_query = text\<close> on) and
  \<^verbatim>\<open>_listen_and_respond_thread\<close> (the branch of a recognised text) have in common, word for
  word. The first component of the result is the exception that leaves the function, if any.
\<close>

definition respond ::
  "config \<Rightarrow> (request \<Rightarrow> http_outcome) \<Rightarrow> string \<Rightarrow> assistant_manager \<Rightarrow>
     py_error option \<times> assistant_manager" where
  "respond cfg net text self =
     (let self1 = self\<lparr>last_query := Some text\<rparr>
      in case process_query cfg net text (nlp_processor self1) of
           Inl e \<Rightarrow> (Some e, self1)
         | Inr (response_data, nlp) \<Rightarrow>
             let self2 = self1\<lparr>nlp_processor := nlp, last_response := Some response_data\<rparr>;
                 self3 =
                   (if user_name self2 \<noteq> nlp_user_name nlp \<or> user_type self2 \<noteq> nlp_user_type nlp
                    then
                      let self2' = self2\<lparr>user_name := nlp_user_name nlp,
                                         user_type := nlp_user_type nlp\<rparr>
                      in if on_user_info_change_callback self2'
                         then emit (User_info_change_callback (user_name self2') (user_type self2'))
                                self2'
                         else self2'
                    else self2);
                 self4 = self3\<lparr>conversation_history := conversation_history self3 @
                            [\<lparr>h_query = text, h_response = response_data,
                              h_user_name = user_name self3, h_user_type = user_type self3\<rparr>]\<rparr>;
                 self5 = (if on_response_callback self4
                          then emit (Response_callback response_data) self4 else self4)
             in (None, speak_response (response response_data) self5))"

definition process_text_input ::
  "config \<Rightarrow> (request \<Rightarrow> http_outcome) \<Rightarrow> string \<Rightarrow> assistant_manager \<Rightarrow>
     py_error option \<times> assistant_manager" where
  "process_text_input cfg net text self =
     (if text = [] then (None, self) else respond cfg net text self)"

subsection \<open>The voice turn\<close>


text \<open>
  What the microphone and the recogniser do in \<^verbatim>\<open>recognize_from_microphone\<close>: the
  microphone fails before listening starts; no speech starts within the timeout; or audio is
  captured, and is then recognised as a text or not recognised.
\<close>

datatype mic_outcome =
    Mic_error
  | Wait_timeout
  | Heard "string option"

text \<open>
  The thread function in two steps, cut where the recogniser begins to wait for the
  microphone. \<open>thread_enter\<close> runs from \<^verbatim>\<open>self.is_listening = True\<close> into
  \<^verbatim>\<open>recognize_from_microphone\<close>: a recogniser that is already listening returns
  \<^verbatim>\<open>None\<close> at once, and the thread ends in its \<^verbatim>\<open>else\<close> branch (the result is
  \<open>False\<close>); otherwise the recogniser sets its own flag and the turn is acquiring input
  (the result is \<open>True\<close>).
\<close>

definition thread_enter :: "assistant_manager \<Rightarrow> bool \<times> assistant_manager" where
  "thread_enter self =
     (let self1 = emit Recognize_from_microphone (self\<lparr>is_listening := True\<rparr>)
      in if recognizer_is_listening self1
         then (False, self1\<lparr>is_listening := False\<rparr>)
         else (True, self1\<lparr>recognizer_is_listening := True\<rparr>))"

text \<open>
  \<open>thread_leave\<close> is the rest: the recogniser calls the listening callbacks that the
  outcome reaches, clears its flag and returns; the manager goes on with the text, or
  clears \<^verbatim>\<open>is_listening\<close> when there is none.
\<close>

definition thread_leave ::
  "config \<Rightarrow> (request \<Rightarrow> http_outcome) \<Rightarrow> mic_outcome \<Rightarrow> assistant_manager \<Rightarrow>
     py_error option \<times> assistant_manager" where
  "thread_leave cfg net mic self =
     (let (query_text, self1) =
            (case mic of
               Mic_error \<Rightarrow> (None, self)
             | Wait_timeout \<Rightarrow> (None, on_listening_start self)
             | Heard r \<Rightarrow> (r, on_listening_end (on_listening_start self)));
          self2 = self1\<lparr>recognizer_is_listening := False\<rparr>
      in case query_text of
           None \<Rightarrow> (None, self2\<lparr>is_listening := False\<rparr>)
         | Some text \<Rightarrow>
             if text = [] then (None, self2\<lparr>is_listening := False\<rparr>)
             else respond cfg net text self2)"

definition listen_and_respond_thread ::
  "config \<Rightarrow> (request \<Rightarrow> http_outcome) \<Rightarrow> mic_outcome \<Rightarrow> assistant_manager \<Rightarrow>
     py_error option \<times> assistant_manager" where
  "listen_and_respond_thread cfg net mic self =
     (case thread_enter self of
        (True, self1) \<Rightarrow> thread_leave cfg net mic self1
      | (False, self1) \<Rightarrow> (None, self1))"

subsection \<open>User information and history\<close>

definition truthy :: "string option \<Rightarrow> bool" where
  "truthy a = (case a of None \<Rightarrow> False | Some x \<Rightarrow> x \<noteq> [])"

definition set_user_info ::
  "string option \<Rightarrow> string option \<Rightarrow> assistant_manager \<Rightarrow> assistant_manager" where
  "set_user_info user_name' user_type' self =
     (let self1 =
            (case user_name' of
               Some n \<Rightarrow>
                 if n \<noteq> [] then
                   self\<lparr>user_name := n,
                        nlp_processor := (nlp_processor self)\<lparr>nlp_user_name := n\<rparr>\<rparr>
                 else self
             | None \<Rightarrow> self);
          self2 =
            (case user_type' of
               Some t \<Rightarrow>
                 if t \<noteq> [] \<and> t \<in> set [''staff'', ''student''] then
                   self1\<lparr>user_type := t,
                         nlp_processor := (nlp_processor self1)\<lparr>nlp_user_type := t\<rparr>\<rparr>
                 else self1
             | None \<Rightarrow> self1)
      in if (truthy user_name' \<or> truthy user_type') \<and> on_user_info_change_callback self2
         then emit (User_info_change_callback (user_name self2) (user_type self2)) self2
         else self2)"


definition get_conversation_history :: "assistant_manager \<Rightarrow> history_entry list" where
  "get_conversation_history self = conversation_history self"

definition clear_conversation_history :: "assistant_manager \<Rightarrow> assistant_manager" where
  "clear_conversation_history self =
     self\<lparr>conversation_history := [], last_query := None, last_response := None\<rparr>"

section \<open>Observations and sample environments\<close>

text \<open>What a trace holds of each kind of event, in order.\<close>

definition spoken :: "event list \<Rightarrow> string list" where
  "spoken es = concat (map (\<lambda>e. case e of Speak t \<Rightarrow> [t] | _ \<Rightarrow> []) es)"

definition user_info_changes :: "event list \<Rightarrow> (string \<times> string) list" where
  "user_info_changes es =
     concat (map (\<lambda>e. case e of User_info_change_callback n t \<Rightarrow> [(n, t)] | _ \<Rightarrow> []) es)"

definition responses :: "event list \<Rightarrow> response_data list" where
  "responses es = concat (map (\<lambda>e. case e of Response_callback r \<Rightarrow> [r] | _ \<Rightarrow> []) es)"

text \<open>
  The failures of the answer service: a \<^verbatim>\<open>RequestException\<close> (no connection, timeout,
  error status), a \<^verbatim>\<open>JSONDecodeError\<close>, or another exception that has a message (a reply
  that is JSON but no object raises an \<^verbatim>\<open>AttributeError\<close> with one).
\<close>

definition service_error :: "http_outcome \<Rightarrow> bool" where
  "service_error out =
     (case out of
        RequestException e \<Rightarrow> True
      | JSONDecodeError e \<Rightarrow> True
      | OtherException e \<Rightarrow> e \<noteq> []
      | Reply d now \<Rightarrow> False)"

text \<open>An answer service that cannot be reached, and one that answers every question alike.\<close>

definition unreachable_service :: "request \<Rightarrow> http_outcome" where
  "unreachable_service req = RequestException ''Connection refused''"

definition constant_service :: "request \<Rightarrow> http_outcome" where
  "constant_service req =
     Reply \<lparr>reply_response = Some ''Library hours are 9 to 5.'', reply_confidence = None,
            reply_sources = None, reply_timestamp = None\<rparr> 0"

text \<open>The manager as app.py and the main window set it up, with the default configuration.\<close>

definition fresh_manager :: assistant_manager where
  "fresh_manager = set_callbacks True True True True True True (AssistantManager_init default_config)"

text \<open>The same manager after one answered question.\<close>

definition answered_manager :: assistant_manager where
  "answered_manager =
     snd (process_text_input default_config constant_service ''when is the library open''
            fresh_manager)"

text \<open>The fresh manager after the user type has been set to staff through the window.\<close>

definition staff_manager :: assistant_manager where
  "staff_manager = set_user_info None (Some ''staff'') fresh_manager"



section \<open>Properties of the matcher\<close>

subsection \<open>Matching does not depend on case\<close>



lemma lower_length: "lower s = lower s' \<Longrightarrow> length s = length s'"
  unfolding lower_def by (rule map_eq_imp_length_eq)












lemma in_run_Bol: "x \<in> set (run Bol (i, s, g)) \<longleftrightarrow> i = 0 \<and> x = (i, s, g)"
  by auto

lemma in_run_Eol: "x \<in> set (run Eol (i, s, g)) \<longleftrightarrow> (s = [] \<or> s = [newline]) \<and> x = (i, s, g)"
  by auto

lemma in_run_Lit:
  "x \<in> set (run (Lit p) (i, s, g)) \<longleftrightarrow>
     (\<exists>u t. s = u @ t \<and> lower u = lower p \<and> x = (i + length u, t, g))"
proof
  assume "x \<in> set (run (Lit p) (i, s, g))"
  then have *: "length p \<le> length s" "lower (take (length p) s) = lower p"
    "x = (i + length p, drop (length p) s, g)"
    by (auto split: if_splits)
  have "s = take (length p) s @ drop (length p) s" by simp
  with * show "\<exists>u t. s = u @ t \<and> lower u = lower p \<and> x = (i + length u, t, g)"
    by (metis length_take min.absorb2)
next
  assume "\<exists>u t. s = u @ t \<and> lower u = lower p \<and> x = (i + length u, t, g)"
  then obtain u t where *: "s = u @ t" "lower u = lower p" "x = (i + length u, t, g)" by blast
  from *(2) have "length u = length p" by (rule lower_length)
  with * show "x \<in> set (run (Lit p) (i, s, g))" by simp
qed

lemma takeWhile_prefix_iff:
  "k \<le> length (takeWhile P s) \<longleftrightarrow> k \<le> length s \<and> (\<forall>c \<in> set (take k s). P c)"
proof (induction s arbitrary: k)
  case Nil
  show ?case by simp
next
  case (Cons a s)
  show ?case
  proof (cases k)
    case 0
    then show ?thesis by simp
  next
    case (Suc k')
    then show ?thesis using Cons[of k'] by auto
  qed
qed

lemma in_run_AnyPlus:
  "x \<in> set (run AnyPlus (i, s, g)) \<longleftrightarrow>
     (\<exists>u t. s = u @ t \<and> u \<noteq> [] \<and> newline \<notin> set u \<and> x = (i + length u, t, g))"
proof
  assume "x \<in> set (run AnyPlus (i, s, g))"
  then obtain k where k: "1 \<le> k" "k \<le> length (takeWhile (\<lambda>c. c \<noteq> newline) s)"
      and x: "x = (i + k, drop k s, g)"
    by auto
  from k(2) have le: "k \<le> length s" and nn: "\<forall>c \<in> set (take k s). c \<noteq> newline"
    by (simp_all add: takeWhile_prefix_iff)
  have "s = take k s @ drop k s" by simp
  moreover have "take k s \<noteq> []" using k(1) le by auto
  moreover have "newline \<notin> set (take k s)" using nn by blast
  moreover have "x = (i + length (take k s), drop k s, g)" using x le by simp
  ultimately show "\<exists>u t. s = u @ t \<and> u \<noteq> [] \<and> newline \<notin> set u \<and> x = (i + length u, t, g)"
    by blast
next
  assume "\<exists>u t. s = u @ t \<and> u \<noteq> [] \<and> newline \<notin> set u \<and> x = (i + length u, t, g)"
  then obtain u t where *: "s = u @ t" "u \<noteq> []" "newline \<notin> set u" "x = (i + length u, t, g)"
    by blast
  have "length u \<le> length (takeWhile (\<lambda>c. c \<noteq> newline) s)"
    using * by (auto simp: takeWhile_prefix_iff)
  moreover have "1 \<le> length u" using *(2) by (cases u) auto
  ultimately have "length u \<in> set (rev [1 ..< Suc (length (takeWhile (\<lambda>c. c \<noteq> newline) s))])"
    by auto
  then show "x \<in> set (run AnyPlus (i, s, g))"
    using * by (auto simp: image_iff intro!: bexI[of _ "length u"])
qed

lemma in_run_Seq:
  "x \<in> set (run (Seq a b) st) \<longleftrightarrow>
     (\<exists>j t h. (j, t, h) \<in> set (run a st) \<and> x \<in> set (run b (j, t, h)))"
  by auto

lemma in_run_Alt: "x \<in> set (run (Alt a b) st) \<longleftrightarrow> x \<in> set (run a st) \<or> x \<in> set (run b st)"
  by auto

lemma in_run_Group:
  "x \<in> set (run (Group n a) (i, s, g)) \<longleftrightarrow>
     (\<exists>j t h. (j, t, h) \<in> set (run a (i, s, g)) \<and> x = (j, t, h(n \<mapsto> take (j - i) s)))"
  by (auto simp: image_iff) force+

lemma re_match_SomeD: "re_match r q = Some m \<Longrightarrow> \<exists>j t. (j, t, m) \<in> set (run r (0, q, Map.empty))"
  by (auto simp: re_match_def split: list.splits)

lemma re_match_NoneD: "re_match r q = None \<longleftrightarrow> set (run r (0, q, Map.empty)) = {}"
  by (auto simp: re_match_def split: list.splits)

lemmas in_run =
  in_run_Bol in_run_Eol in_run_Lit in_run_AnyPlus in_run_Seq in_run_Alt in_run_Group

lemma lower_literals:
  "lower ''i am a '' = ''i am a ''" "lower ''staff'' = ''staff''" "lower ''student'' = ''student''"
  "lower ''set'' = ''set''" "lower ''call'' = ''call''" "lower ''change'' = ''change''"
  "lower '' my name to '' = '' my name to ''"
  by code_simp+

lemma set_user_type_groups:
  assumes "re_match (Seq Bol (Seq (Lit ''i am a '')
                       (Seq (Group 1 (Alt (Lit ''staff'') (Lit ''student''))) Eol))) q = Some m"
  shows "\<exists>p t e. q = p @ t @ e \<and> lower p = ''i am a '' \<and> m 1 = Some t \<and>
           (lower t = ''staff'' \<or> lower t = ''student'') \<and> (e = [] \<or> e = [newline])"
proof -
  have "\<exists>p t. (lower t = ''staff'' \<or> lower t = ''student'') \<and> lower p = ''i am a '' \<and>
          m 1 = Some t \<and> (q = p @ t @ [] \<or> q = p @ t @ [newline])"
    using re_match_SomeD[OF assms]
    apply (simp only: in_run lower_literals)
    apply (elim exE conjE disjE)
       apply (auto simp del: run.simps)
    done
  then show ?thesis by blast
qed

lemma set_user_name_groups:
  assumes "re_match (Seq Bol (Seq (Group 1 (Alt (Lit ''set'') (Alt (Lit ''call'') (Lit ''change''))))
                       (Seq (Lit '' my name to '') (Seq (Group 2 AnyPlus) Eol)))) q = Some m"
  shows "\<exists>v p x e. q = v @ p @ x @ e \<and> (lower v = ''set'' \<or> lower v = ''call'' \<or> lower v = ''change'') \<and>
           lower p = '' my name to '' \<and> m 1 = Some v \<and> m 2 = Some x \<and> x \<noteq> [] \<and> newline \<notin> set x \<and>
           (e = [] \<or> e = [newline])"
proof -
  have "\<exists>v p x. (lower v = ''set'' \<or> lower v = ''call'' \<or> lower v = ''change'') \<and>
          lower p = '' my name to '' \<and> m 1 = Some v \<and> m 2 = Some x \<and> x \<noteq> [] \<and> newline \<notin> set x \<and>
          (q = v @ p @ x @ [] \<or> q = v @ p @ x @ [newline])"
    using re_match_SomeD[OF assms]
    apply (simp only: in_run lower_literals)
    apply (elim exE conjE disjE)
       apply (auto simp del: run.simps)
         apply blast+
    done
  then show ?thesis by blast
qed

subsection \<open>The command handler returns\<close>

lemma detect_in_SomeD:
  "detect_in t q = Some (i, m) \<Longrightarrow> \<exists>p. (i, p) \<in> set t \<and> re_match p q = Some m"
  by (induction t) (auto split: option.splits)

lemma detect_set_user_type:
  assumes "detect_command_intent q = Some (''set_user_type'', m)"
  shows "re_match (Seq Bol (Seq (Lit ''i am a '')
            (Seq (Group 1 (Alt (Lit ''staff'') (Lit ''student''))) Eol))) q = Some m"
  using detect_in_SomeD[OF assms[unfolded detect_command_intent_def]]
  by (auto simp: command_patterns_def)

lemma detect_set_user_name:
  assumes "detect_command_intent q = Some (''set_user_name'', m)"
  shows "re_match (Seq Bol (Seq (Group 1 (Alt (Lit ''set'') (Alt (Lit ''call'') (Lit ''change''))))
            (Seq (Lit '' my name to '') (Seq (Group 2 AnyPlus) Eol)))) q = Some m"
  using detect_in_SomeD[OF assms[unfolded detect_command_intent_def]]
  by (auto simp: command_patterns_def)

lemma detect_intent_cases:
  assumes "detect_command_intent q = Some (i, m)"
  shows "i \<in> set [''help'', ''exit'', ''repeat'', ''set_user_type'', ''set_user_name'',
                  ''get_assistant_name'']"
  using detect_in_SomeD[OF assms[unfolded detect_command_intent_def]]
  by (auto simp: command_patterns_def)

lemma handle_command_returns:
  assumes "detect_command_intent q = Some (i, m)"
  shows "\<exists>r n'. handle_command i m q n = Inr (r, n')"
proof -
  consider "i = ''set_user_type''" | "i = ''set_user_name''"
    | "i \<noteq> ''set_user_type''" "i \<noteq> ''set_user_name''" by blast
  then show ?thesis
  proof cases
    case 1
    with assms obtain t where "m 1 = Some t"
      using set_user_type_groups[OF detect_set_user_type] by blast
    with 1 show ?thesis by (simp add: handle_command_def Let_def)
  next
    case 2
    with assms obtain x where "m 2 = Some x"
      using set_user_name_groups[OF detect_set_user_name] by blast
    with 2 show ?thesis by (simp add: handle_command_def Let_def)
  next
    case 3
    then show ?thesis by (simp add: handle_command_def Let_def)
  qed
qed

lemma handle_command_frame:
  assumes "i \<noteq> ''set_user_type''" "i \<noteq> ''set_user_name''"
  shows "\<exists>r. handle_command i m q n = Inr (r, n)"
  using assms by (simp add: handle_command_def Let_def)

lemma RAGAPIClient_query_frame:
  "snd (RAGAPIClient_query cfg net c q ctx un ut) = c \<or>
   (\<exists>req. snd (RAGAPIClient_query cfg net c q ctx un ut) = c\<lparr>sent := sent c @ [req]\<rparr>)"
  by (auto simp: RAGAPIClient_query_def Let_def split: http_outcome.splits)

lemma process_query_returns: "\<exists>r n'. process_query cfg net q n = Inr (r, n')"
proof (cases "q = []")
  case True
  then show ?thesis by (simp add: process_query_def)
next
  case False
  have disp: "\<exists>r n'. (case RAGAPIClient_query cfg net (rag_client n) q None
                      (Some (nlp_user_name n)) (Some (nlp_user_type n)) of
                 (Inr rag_response, client) \<Rightarrow>
                   Inr ((mk_response q (rr_answer rag_response) True False)
                          \<lparr>confidence := Some (rr_confidence rag_response),
                           sources := Some (rr_sources rag_response),
                           raw_response := Some rag_response\<rparr>,
                        n\<lparr>rag_client := client\<rparr>)
               | (Inl e, client) \<Rightarrow>
                   Inr ((mk_response q apology False False)\<lparr>error := Some e\<rparr>,
                        n\<lparr>rag_client := client\<rparr>)) = (Inr (r, n') :: py_error + response_data \<times> nlp_processor)"
    by (auto split: prod.splits sum.splits)
  show ?thesis
  proof (cases "detect_command_intent q")
    case None
    with False disp show ?thesis by (simp add: process_query_def Let_def)
  next
    case (Some a)
    obtain i m where a: "a = (i, m)" by (cases a)
    from Some a handle_command_returns[of q i m n] False disp show ?thesis
      by (auto simp: process_query_def Let_def)
  qed
qed

subsection \<open>One turn of the manager\<close>

lemma spoken_append: "spoken (xs @ ys) = spoken xs @ spoken ys"
  by (simp add: spoken_def)

lemma responses_append: "responses (xs @ ys) = responses xs @ responses ys"
  by (simp add: responses_def)

lemma user_info_changes_append:
  "user_info_changes (xs @ ys) = user_info_changes xs @ user_info_changes ys"
  by (simp add: user_info_changes_def)

lemma respond_Inr:
  assumes "process_query cfg net text (nlp_processor m) = Inr (r, n')"
  shows "respond cfg net text m =
    (None,
     m\<lparr>nlp_processor := n', is_speaking := True, last_query := Some text,
       last_response := Some r,
       conversation_history := conversation_history m @
         [\<lparr>h_query = text, h_response = r,
           h_user_name = nlp_user_name n', h_user_type = nlp_user_type n'\<rparr>],
       user_name := nlp_user_name n', user_type := nlp_user_type n',
       trace := trace m @
         (if on_user_info_change_callback m \<and>
             (user_name m \<noteq> nlp_user_name n' \<or> user_type m \<noteq> nlp_user_type n')
          then [User_info_change_callback (nlp_user_name n') (nlp_user_type n')] else []) @
         (if on_response_callback m then [Response_callback r] else []) @
         [Speak (response r)]\<rparr>)"
  using assms
  by (cases m) (auto simp: respond_def Let_def speak_response_def emit_def)

subsection \<open>The matcher and the processor on sample utterances\<close>

lemma detect_repeat: "map_option fst (detect_command_intent ''repeat'') = Some ''repeat''"
  by code_simp

lemma detect_staff:
  "(case detect_command_intent ''i am a staff'' of
      Some (i, m) \<Rightarrow> Some (i, m 1) | None \<Rightarrow> None) = Some (''set_user_type'', Some ''staff'')"
  by code_simp

lemma detect_teacher: "detect_command_intent ''i am a teacher'' = None"
  by code_simp

lemma detect_blank_name:
  "(case detect_command_intent ''set my name to  '' of
      Some (i, m) \<Rightarrow> Some (i, m 2) | None \<Rightarrow> None) = Some (''set_user_name'', Some '' '')"
  by code_simp

lemma detect_spaces: "detect_command_intent ''   '' = None"
  by code_simp

lemma strip_space: "strip '' '' = []" "strip ''   '' = []" "lower ''staff'' = ''staff''"
  by code_simp+

lemma process_query_repeat:
  "process_query cfg net ''repeat'' n =
     Inr ((mk_response ''repeat'' (''I'' @ apostrophe @ ''ll repeat my last response.'') True True)
            \<lparr>intent := Some ''repeat'', should_repeat := True\<rparr>, n)"
proof -
  from detect_repeat obtain m where "detect_command_intent ''repeat'' = Some (''repeat'', m)"
    by (cases "detect_command_intent ''repeat''") auto
  then show ?thesis
    by (simp add: process_query_def handle_command_def Let_def mk_response_def)
qed

lemma process_query_staff:
  "process_query cfg net ''i am a staff'' n =
     Inr ((mk_response ''i am a staff''
             (''I'' @ apostrophe @ ''ve updated your user type to staff.'') True True)
            \<lparr>intent := Some ''set_user_type'', user_type_changed := True\<rparr>,
          n\<lparr>nlp_user_type := ''staff''\<rparr>)"
proof -
  from detect_staff obtain m where
    "detect_command_intent ''i am a staff'' = Some (''set_user_type'', m)" "m 1 = Some ''staff''"
    by (cases "detect_command_intent ''i am a staff''") auto
  then show ?thesis
    by (simp add: process_query_def handle_command_def Let_def mk_response_def strip_space)
qed

lemma process_query_blank_name:
  "process_query cfg net ''set my name to  '' n =
     Inr ((mk_response ''set my name to  ''
             (''I'' @ apostrophe @ ''ll call you  from now on.'') True True)
            \<lparr>intent := Some ''set_user_name'', user_name_changed := True\<rparr>,
          n\<lparr>nlp_user_name := []\<rparr>)"
proof -
  from detect_blank_name obtain m where
    "detect_command_intent ''set my name to  '' = Some (''set_user_name'', m)" "m 2 = Some '' ''"
    by (cases "detect_command_intent ''set my name to  ''") auto
  then show ?thesis
    by (simp add: process_query_def handle_command_def Let_def mk_response_def strip_space)
qed

lemma process_query_dispatch:
  assumes "q \<noteq> []" "detect_command_intent q = None"
  shows "process_query cfg net q n =
     (case RAGAPIClient_query cfg net (rag_client n) q None
             (Some (nlp_user_name n)) (Some (nlp_user_type n)) of
        (Inr rag_response, client) \<Rightarrow>
          Inr ((mk_response q (rr_answer rag_response) True False)
                 \<lparr>confidence := Some (rr_confidence rag_response),
                  sources := Some (rr_sources rag_response),
                  raw_response := Some rag_response\<rparr>,
               n\<lparr>rag_client := client\<rparr>)
      | (Inl e, client) \<Rightarrow>
          Inr ((mk_response q apology False False)\<lparr>error := Some e\<rparr>,
               n\<lparr>rag_client := client\<rparr>))"
  using assms by (simp add: process_query_def Let_def)

lemma RAGAPIClient_query_error:
  assumes "q \<noteq> []" "\<And>req. service_error (net req)"
  shows "\<exists>e c'. RAGAPIClient_query cfg net c q ctx un ut = (Inl e, c') \<and> e \<noteq> []"
proof -
  let ?req = "\<lparr>req_endpoint = endpoint c,
               req_authorization =
                 (if api_key c \<noteq> [] then Some (''Bearer '' @ api_key c) else None),
               req_timeout = timeout c,
               req_name = or_else un (DEFAULT_USER_NAME cfg),
               req_user_type = or_else ut (DEFAULT_USER_TYPE cfg),
               req_message = q,
               req_context = (case ctx of None \<Rightarrow> None
                              | Some c \<Rightarrow> if c = [] then None else Some c)\<rparr>"
  from assms(2)[of ?req] assms(1) show ?thesis
    by (cases "net ?req") (auto simp: RAGAPIClient_query_def Let_def service_error_def)
qed

subsection \<open>The table and the listed phrasings\<close>





lemma process_query_teacher:
  "\<exists>r c req. process_query cfg net ''i am a teacher'' n = Inr (r, n\<lparr>rag_client := c\<rparr>) \<and>
     \<not> is_command r \<and> intent r = None \<and> query r = ''i am a teacher'' \<and>
     sent c = sent (rag_client n) @ [req] \<and> req_message req = ''i am a teacher'' \<and>
     req_name req = or_else (Some (nlp_user_name n)) (DEFAULT_USER_NAME cfg) \<and>
     req_user_type req = or_else (Some (nlp_user_type n)) (DEFAULT_USER_TYPE cfg)"
proof -
  let ?req = "\<lparr>req_endpoint = endpoint (rag_client n),
               req_authorization =
                 (if api_key (rag_client n) \<noteq> [] then Some (''Bearer '' @ api_key (rag_client n)) else None),
               req_timeout = timeout (rag_client n),
               req_name = or_else (Some (nlp_user_name n)) (DEFAULT_USER_NAME cfg),
               req_user_type = or_else (Some (nlp_user_type n)) (DEFAULT_USER_TYPE cfg),
               req_message = ''i am a teacher'',
               req_context = None\<rparr>"
  let ?c = "(rag_client n)\<lparr>sent := sent (rag_client n) @ [?req]\<rparr>"
  have ne: "''i am a teacher'' \<noteq> []" by simp
  have "\<exists>r. process_query cfg net ''i am a teacher'' n = Inr (r, n\<lparr>rag_client := ?c\<rparr>) \<and>
     \<not> is_command r \<and> intent r = None \<and> query r = ''i am a teacher''"
    unfolding process_query_dispatch[OF ne detect_teacher]
    by (cases "net ?req") (simp_all add: RAGAPIClient_query_def Let_def mk_response_def)
  moreover have "sent ?c = sent (rag_client n) @ [?req]" "req_message ?req = ''i am a teacher''"
    "req_name ?req = or_else (Some (nlp_user_name n)) (DEFAULT_USER_NAME cfg)"
    "req_user_type ?req = or_else (Some (nlp_user_type n)) (DEFAULT_USER_TYPE cfg)"
    by simp_all
  ultimately show ?thesis by blast
qed

section \<open>The claims\<close>



text \<open>
  Claim C2. Let the utterance be non-empty and no command, and let the answer service fail
  on whatever it is asked (a request exception such as a transport error or a timeout, a
  JSON decoding error, or another exception with a message). Then \<^verbatim>\<open>process_query\<close> raises
  nothing: it returns a record with \<^verbatim>\<open>success = False\<close>, the fixed apology as its response
  and a non-empty \<^verbatim>\<open>error\<close>. \<^verbatim>\<open>process_text_input\<close> raises nothing either, appends this
  record to the conversation history, passes it to the response callback if one is set, and
  hands the apology to the speech output.
\<close>

theorem service_failure_becomes_apology_record:
  assumes "q \<noteq> []" and "detect_command_intent q = None" and "\<forall>req. service_error (net req)"
  shows "\<exists>r n' e m'.
           process_query cfg net q (nlp_processor m) = Inr (r, n') \<and>
           query r = q \<and> response r = apology \<and> \<not> success r \<and> \<not> is_command r \<and>
           error r = Some e \<and> e \<noteq> [] \<and>
           process_text_input cfg net q m = (None, m') \<and>
           last_response m' = Some r \<and>
           conversation_history m' = conversation_history m @
             [\<lparr>h_query = q, h_response = r,
               h_user_name = user_name m', h_user_type = user_type m'\<rparr>] \<and>
           responses (trace m') = responses (trace m) @ (if on_response_callback m then [r] else []) \<and>
           spoken (trace m') = spoken (trace m) @ [apology]"
proof -
  from assms(3) have se: "\<And>req. service_error (net req)" by blast
  have "\<exists>e c'. RAGAPIClient_query cfg net (rag_client (nlp_processor m)) q None
      (Some (nlp_user_name (nlp_processor m))) (Some (nlp_user_type (nlp_processor m))) = (Inl e, c')
      \<and> e \<noteq> []"
    by (rule RAGAPIClient_query_error[OF assms(1)]) (rule se)
  then obtain e c' where e: "RAGAPIClient_query cfg net (rag_client (nlp_processor m)) q None
      (Some (nlp_user_name (nlp_processor m))) (Some (nlp_user_type (nlp_processor m))) = (Inl e, c')"
    "e \<noteq> []" by blast
  let ?r = "(mk_response q apology False False)\<lparr>error := Some e\<rparr>"
  let ?n = "(nlp_processor m)\<lparr>rag_client := c'\<rparr>"
  have pq: "process_query cfg net q (nlp_processor m) = Inr (?r, ?n)"
    by (simp add: process_query_dispatch[OF assms(1,2)] e)
  show ?thesis
    apply (rule exI[of _ ?r], rule exI[of _ ?n], rule exI[of _ e])
    using e(2) assms(1)
    by (simp add: pq process_text_input_def respond_Inr[OF pq] mk_response_def
        spoken_append responses_append spoken_def responses_def)
qed

theorem service_failure_becomes_apology_record_witness:
  "''i am a teacher'' \<noteq> [] \<and> detect_command_intent ''i am a teacher'' = None \<and>
   (\<forall>req. service_error (unreachable_service req)) \<and>
   (\<exists>r n' e m'.
      process_query default_config unreachable_service ''i am a teacher''
        (nlp_processor fresh_manager) = Inr (r, n') \<and>
      query r = ''i am a teacher'' \<and> response r = apology \<and> \<not> success r \<and> \<not> is_command r \<and>
      error r = Some e \<and> e \<noteq> [] \<and>
      process_text_input default_config unreachable_service ''i am a teacher'' fresh_manager =
        (None, m') \<and>
      last_response m' = Some r \<and>
      conversation_history m' = conversation_history fresh_manager @
        [\<lparr>h_query = ''i am a teacher'', h_response = r,
          h_user_name = user_name m', h_user_type = user_type m'\<rparr>] \<and>
      responses (trace m') = responses (trace fresh_manager) @
        (if on_response_callback fresh_manager then [r] else []) \<and>
      spoken (trace m') = spoken (trace fresh_manager) @ [apology])"
proof -
  have h1: "''i am a teacher'' \<noteq> []" by simp
  have h2: "detect_command_intent ''i am a teacher'' = None" by (rule detect_teacher)
  have h3: "\<forall>req. service_error (unreachable_service req)"
    by (simp add: service_error_def unreachable_service_def)
  from service_failure_becomes_apology_record[OF h1 h2 h3, of default_config fresh_manager]
    h1 h2 h3
  show ?thesis by blast
qed

text \<open>
  Claim C3, as the code has it. \<^verbatim>\<open>process_text_input\<close> rejects the empty text and nothing
  else: on the empty text it returns at once, with no record, the manager unchanged (its
  history and its trace too, so nothing is called). Every non-empty text goes through the
  whole pipeline as it is, without being trimmed: \<^verbatim>\<open>process_query\<close> gets the text and
  returns a record, which becomes the last response, is appended to the history, is passed
  to the response callback if one is set, and whose response text is handed to the speech
  output.
\<close>

theorem process_text_input_rejects_only_the_empty_text:
  "process_text_input cfg net [] m = (None, m) \<and>
   (text \<noteq> [] \<longrightarrow>
      (\<exists>r n' m'.
         process_query cfg net text (nlp_processor m) = Inr (r, n') \<and>
         process_text_input cfg net text m = (None, m') \<and>
         last_query m' = Some text \<and> last_response m' = Some r \<and>
         conversation_history m' = conversation_history m @
           [\<lparr>h_query = text, h_response = r,
             h_user_name = user_name m', h_user_type = user_type m'\<rparr>] \<and>
         responses (trace m') = responses (trace m) @ (if on_response_callback m then [r] else []) \<and>
         spoken (trace m') = spoken (trace m) @ [response r]))"
proof (intro conjI impI)
  show "process_text_input cfg net [] m = (None, m)"
    by (simp add: process_text_input_def)
  assume ne: "text \<noteq> []"
  from process_query_returns obtain r n' where
    pq: "process_query cfg net text (nlp_processor m) = Inr (r, n')" by blast
  show "\<exists>r n' m'.
         process_query cfg net text (nlp_processor m) = Inr (r, n') \<and>
         process_text_input cfg net text m = (None, m') \<and>
         last_query m' = Some text \<and> last_response m' = Some r \<and>
         conversation_history m' = conversation_history m @
           [\<lparr>h_query = text, h_response = r,
             h_user_name = user_name m', h_user_type = user_type m'\<rparr>] \<and>
         responses (trace m') = responses (trace m) @ (if on_response_callback m then [r] else []) \<and>
         spoken (trace m') = spoken (trace m) @ [response r]"
    apply (rule exI[of _ r], rule exI[of _ n'])
    using ne
    by (simp add: pq process_text_input_def respond_Inr[OF pq]
        spoken_append responses_append spoken_def responses_def)
qed

theorem process_text_input_rejects_only_the_empty_text_witness:
  "''   '' \<noteq> [] \<and>
   process_text_input default_config unreachable_service [] fresh_manager = (None, fresh_manager) \<and>
   (\<exists>r n' m'.
      process_query default_config unreachable_service ''   '' (nlp_processor fresh_manager) =
        Inr (r, n') \<and>
      process_text_input default_config unreachable_service ''   '' fresh_manager = (None, m') \<and>
      last_query m' = Some ''   '' \<and> last_response m' = Some r \<and>
      conversation_history m' = conversation_history fresh_manager @
        [\<lparr>h_query = ''   '', h_response = r,
          h_user_name = user_name m', h_user_type = user_type m'\<rparr>] \<and>
      responses (trace m') = responses (trace fresh_manager) @
        (if on_response_callback fresh_manager then [r] else []) \<and>
      spoken (trace m') = spoken (trace fresh_manager) @ [response r])"
proof -
  have h: "''   '' \<noteq> []" by simp
  from process_text_input_rejects_only_the_empty_text
         [of default_config unreachable_service fresh_manager "''   ''"] h
  show ?thesis by blast
qed

text \<open>
  The claim as stated fails on a text of three spaces: it is empty after trimming, and yet
  it is sent to the answer service, answered (here with the apology, the service being
  unreachable) and recorded in the history.
\<close>

theorem whitespace_text_counterexample:
  "strip ''   '' = [] \<and>
   length (conversation_history
     (snd (process_text_input default_config unreachable_service ''   '' fresh_manager))) = 1 \<and>
   map req_message (sent (rag_client (nlp_processor
     (snd (process_text_input default_config unreachable_service ''   '' fresh_manager))))) =
     [''   ''] \<and>
   spoken (trace (snd (process_text_input default_config unreachable_service ''   '' fresh_manager)))
     = [apology]"
  by code_simp

text \<open>
  Claim C4, evaluated on the code. The utterance \<open>repeat\<close> is answered like any other
  command, in every state of the manager: \<^verbatim>\<open>process_text_input\<close> produces a new record whose
  response text is "I'll repeat my last response." and whose \<^verbatim>\<open>should_repeat\<close> flag is set,
  makes it the last response, appends it to the history and hands that announcement to the
  speech output. Nothing reads the flag: neither the last response before it nor
  "I haven't said anything yet." is spoken.
\<close>

theorem repeat_utterance_is_answered_and_recorded:
  "\<exists>r m'.
     process_text_input cfg net ''repeat'' m = (None, m') \<and>
     response r = ''I'' @ apostrophe @ ''ll repeat my last response.'' \<and> should_repeat r \<and>
     last_response m' = Some r \<and>
     conversation_history m' = conversation_history m @
       [\<lparr>h_query = ''repeat'', h_response = r,
         h_user_name = user_name m', h_user_type = user_type m'\<rparr>] \<and>
     spoken (trace m') = spoken (trace m) @ [''I'' @ apostrophe @ ''ll repeat my last response.'']"
  by (simp add: process_text_input_def respond_Inr[OF process_query_repeat] mk_response_def
      spoken_append spoken_def)

theorem repeat_utterance_is_answered_and_recorded_witness:
  "spoken (trace answered_manager) = [''Library hours are 9 to 5.''] \<and>
   length (conversation_history answered_manager) = 1 \<and>
   (\<exists>r m'.
      process_text_input default_config constant_service ''repeat'' answered_manager = (None, m') \<and>
      response r = ''I'' @ apostrophe @ ''ll repeat my last response.'' \<and> should_repeat r \<and>
      last_response m' = Some r \<and>
      length (conversation_history m') = 2 \<and>
      spoken (trace m') =
        [''Library hours are 9 to 5.'', ''I'' @ apostrophe @ ''ll repeat my last response.''])"
proof -
  have h1: "spoken (trace answered_manager) = [''Library hours are 9 to 5.'']" by code_simp
  have h2: "length (conversation_history answered_manager) = 1" by code_simp
  from repeat_utterance_is_answered_and_recorded
         [of default_config constant_service answered_manager]
  obtain r m' where
    *: "process_text_input default_config constant_service ''repeat'' answered_manager = (None, m')"
       "response r = ''I'' @ apostrophe @ ''ll repeat my last response.''" "should_repeat r"
       "last_response m' = Some r"
       "conversation_history m' = conversation_history answered_manager @
          [\<lparr>h_query = ''repeat'', h_response = r,
            h_user_name = user_name m', h_user_type = user_type m'\<rparr>]"
       "spoken (trace m') = spoken (trace answered_manager) @
          [''I'' @ apostrophe @ ''ll repeat my last response.'']"
    by blast
  from *(5) h2 have "length (conversation_history m') = 2" by simp
  with * h1 h2 show ?thesis by auto
qed




text \<open>
  Claim C6, as the code has it. The text \<open>i am a staff\<close> is the command
  \<^verbatim>\<open>set_user_type\<close>: it sets the type to staff in the processor and in the manager and
  sends nothing to the answer service. The user-info callback is fired, when one is set,
  only if the manager's name or type differed from the processor's after the command, as
  when the type was not staff before. The text \<open>i am a teacher\<close> matches no command: it is
  sent to the answer service as the message of a request that carries the name and the
  type of the user, and the type stays what it was.
\<close>

theorem staff_command_and_teacher_query:
  "(\<exists>r m'.
      process_text_input cfg net ''i am a staff'' m = (None, m') \<and>
      last_response m' = Some r \<and> intent r = Some ''set_user_type'' \<and> success r \<and>
      user_type m' = ''staff'' \<and> nlp_user_type (nlp_processor m') = ''staff'' \<and>
      user_name m' = nlp_user_name (nlp_processor m) \<and>
      sent (rag_client (nlp_processor m')) = sent (rag_client (nlp_processor m)) \<and>
      user_info_changes (trace m') = user_info_changes (trace m) @
        (if on_user_info_change_callback m \<and>
            (user_name m \<noteq> nlp_user_name (nlp_processor m) \<or> user_type m \<noteq> ''staff'')
         then [(nlp_user_name (nlp_processor m), ''staff'')] else [])) \<and>
   detect_command_intent ''i am a teacher'' = None \<and>
   (\<exists>r req m'.
      process_text_input cfg net ''i am a teacher'' m = (None, m') \<and>
      last_response m' = Some r \<and> \<not> is_command r \<and> intent r = None \<and>
      sent (rag_client (nlp_processor m')) = sent (rag_client (nlp_processor m)) @ [req] \<and>
      req_message req = ''i am a teacher'' \<and>
      req_name req = or_else (Some (nlp_user_name (nlp_processor m))) (DEFAULT_USER_NAME cfg) \<and>
      req_user_type req = or_else (Some (nlp_user_type (nlp_processor m))) (DEFAULT_USER_TYPE cfg) \<and>
      user_type m' = nlp_user_type (nlp_processor m) \<and>
      nlp_user_type (nlp_processor m') = nlp_user_type (nlp_processor m))"
proof (intro conjI)
  show "\<exists>r m'.
      process_text_input cfg net ''i am a staff'' m = (None, m') \<and>
      last_response m' = Some r \<and> intent r = Some ''set_user_type'' \<and> success r \<and>
      user_type m' = ''staff'' \<and> nlp_user_type (nlp_processor m') = ''staff'' \<and>
      user_name m' = nlp_user_name (nlp_processor m) \<and>
      sent (rag_client (nlp_processor m')) = sent (rag_client (nlp_processor m)) \<and>
      user_info_changes (trace m') = user_info_changes (trace m) @
        (if on_user_info_change_callback m \<and>
            (user_name m \<noteq> nlp_user_name (nlp_processor m) \<or> user_type m \<noteq> ''staff'')
         then [(nlp_user_name (nlp_processor m), ''staff'')] else [])"
    by (simp add: process_text_input_def respond_Inr[OF process_query_staff] mk_response_def
        user_info_changes_append user_info_changes_def)
  show "detect_command_intent ''i am a teacher'' = None" by (rule detect_teacher)
  from process_query_teacher[of cfg net "nlp_processor m"]
  obtain r c req where
    pq: "process_query cfg net ''i am a teacher'' (nlp_processor m) =
           Inr (r, (nlp_processor m)\<lparr>rag_client := c\<rparr>)"
    and r: "\<not> is_command r" "intent r = None"
    and c: "sent c = sent (rag_client (nlp_processor m)) @ [req]"
      "req_message req = ''i am a teacher''"
      "req_name req = or_else (Some (nlp_user_name (nlp_processor m))) (DEFAULT_USER_NAME cfg)"
      "req_user_type req = or_else (Some (nlp_user_type (nlp_processor m))) (DEFAULT_USER_TYPE cfg)"
    by blast
  show "\<exists>r req m'.
      process_text_input cfg net ''i am a teacher'' m = (None, m') \<and>
      last_response m' = Some r \<and> \<not> is_command r \<and> intent r = None \<and>
      sent (rag_client (nlp_processor m')) = sent (rag_client (nlp_processor m)) @ [req] \<and>
      req_message req = ''i am a teacher'' \<and>
      req_name req = or_else (Some (nlp_user_name (nlp_processor m))) (DEFAULT_USER_NAME cfg) \<and>
      req_user_type req = or_else (Some (nlp_user_type (nlp_processor m))) (DEFAULT_USER_TYPE cfg) \<and>
      user_type m' = nlp_user_type (nlp_processor m) \<and>
      nlp_user_type (nlp_processor m') = nlp_user_type (nlp_processor m)"
    apply (rule exI[of _ r], rule exI[of _ req])
    using r c by (simp add: process_text_input_def respond_Inr[OF pq])
qed

theorem staff_command_and_teacher_query_witness:
  "(\<exists>r m'.
      process_text_input default_config unreachable_service ''i am a staff'' fresh_manager =
        (None, m') \<and>
      last_response m' = Some r \<and> intent r = Some ''set_user_type'' \<and> success r \<and>
      user_type m' = ''staff'' \<and> nlp_user_type (nlp_processor m') = ''staff'' \<and>
      user_name m' = nlp_user_name (nlp_processor fresh_manager) \<and>
      sent (rag_client (nlp_processor m')) = sent (rag_client (nlp_processor fresh_manager)) \<and>
      user_info_changes (trace m') = user_info_changes (trace fresh_manager) @
        (if on_user_info_change_callback fresh_manager \<and>
            (user_name fresh_manager \<noteq> nlp_user_name (nlp_processor fresh_manager) \<or>
             user_type fresh_manager \<noteq> ''staff'')
         then [(nlp_user_name (nlp_processor fresh_manager), ''staff'')] else [])) \<and>
   detect_command_intent ''i am a teacher'' = None"
  using staff_command_and_teacher_query[of default_config unreachable_service fresh_manager]
  by blast

text \<open>
  The claim as stated fails where the type is staff already: the command is accepted and
  the callback is not fired.
\<close>

theorem staff_command_counterexample:
  "user_type staff_manager = ''staff'' \<and> on_user_info_change_callback staff_manager \<and>
   user_type (snd (process_text_input default_config unreachable_service ''i am a staff''
                     staff_manager)) = ''staff'' \<and>
   user_info_changes (trace (snd (process_text_input default_config unreachable_service
                     ''i am a staff'' staff_manager))) = user_info_changes (trace staff_manager)"
  by code_simp



text \<open>
  Claim C8, evaluated on the code. For every utterance that matches the name command the
  handler stores the trimmed group 2 as the user name, whatever it is: there is no test
  that it is non-empty. On \<open>set my name to \<close> followed by one more space, group 2 is a
  single space, and the command succeeds and sets the name to the empty string, in the
  processor and in the manager.
\<close>

theorem blank_name_is_stored:
  "(\<exists>r m'.
      process_text_input cfg net ''set my name to  '' m = (None, m') \<and>
      last_response m' = Some r \<and> success r \<and> user_name_changed r \<and>
      user_name m' = [] \<and> nlp_user_name (nlp_processor m') = []) \<and>
   (\<forall>g. detect_command_intent q = Some (''set_user_name'', g) \<longrightarrow>
      (\<exists>x r. g 2 = Some x \<and>
         process_query cfg net q n = Inr (r, n\<lparr>nlp_user_name := strip x\<rparr>)))"
proof (intro conjI allI impI)
  show "\<exists>r m'.
      process_text_input cfg net ''set my name to  '' m = (None, m') \<and>
      last_response m' = Some r \<and> success r \<and> user_name_changed r \<and>
      user_name m' = [] \<and> nlp_user_name (nlp_processor m') = []"
    by (simp add: process_text_input_def respond_Inr[OF process_query_blank_name] mk_response_def)
  fix g assume d: "detect_command_intent q = Some (''set_user_name'', g)"
  from set_user_name_groups[OF detect_set_user_name[OF d]]
  obtain x where x: "g 2 = Some x" "x \<noteq> []" by blast
  from set_user_name_groups[OF detect_set_user_name[OF d]] have "q \<noteq> []" by auto
  with d x show "\<exists>x r. g 2 = Some x \<and>
         process_query cfg net q n = Inr (r, n\<lparr>nlp_user_name := strip x\<rparr>)"
    by (simp add: process_query_def handle_command_def Let_def)
qed

theorem blank_name_is_stored_witness:
  "(\<exists>r m'.
      process_text_input default_config unreachable_service ''set my name to  '' fresh_manager =
        (None, m') \<and>
      last_response m' = Some r \<and> success r \<and> user_name_changed r \<and>
      user_name m' = [] \<and> nlp_user_name (nlp_processor m') = []) \<and>
   (\<exists>g. detect_command_intent ''Call my name to Bob'' = Some (''set_user_name'', g) \<and>
      (\<exists>x r. g 2 = Some x \<and>
         process_query default_config unreachable_service ''Call my name to Bob''
           (nlp_processor fresh_manager) =
         Inr (r, (nlp_processor fresh_manager)\<lparr>nlp_user_name := strip x\<rparr>)))"
proof -
  have "map_option fst (detect_command_intent ''Call my name to Bob'') = Some ''set_user_name''"
    by code_simp
  then obtain g where
    g: "detect_command_intent ''Call my name to Bob'' = Some (''set_user_name'', g)"
    by (cases "detect_command_intent ''Call my name to Bob''") auto
  from blank_name_is_stored[of default_config unreachable_service fresh_manager
      "''Call my name to Bob''" "nlp_processor fresh_manager"] g
  show ?thesis by blast
qed

text \<open>
  Claim C9. Frame property of \<^verbatim>\<open>process_query\<close>: for every utterance whose detected
  intent is neither \<^verbatim>\<open>set_user_type\<close> nor \<^verbatim>\<open>set_user_name\<close> (the empty utterance, the
  other four commands, and every free-form query, whatever the answer service does), the
  call returns a record and leaves the processor's \<^verbatim>\<open>user_name\<close> and \<^verbatim>\<open>user_type\<close> as they
  were.
\<close>

theorem process_query_keeps_identity:
  assumes "map_option fst (detect_command_intent q) \<noteq> Some ''set_user_type''"
      and "map_option fst (detect_command_intent q) \<noteq> Some ''set_user_name''"
  shows "\<exists>r n'. process_query cfg net q n = Inr (r, n') \<and>
           nlp_user_name n' = nlp_user_name n \<and> nlp_user_type n' = nlp_user_type n"
proof (cases "q = []")
  case True
  then show ?thesis by (simp add: process_query_def)
next
  case False
  have disp: "\<exists>r c. (case RAGAPIClient_query cfg net (rag_client n) q None
             (Some (nlp_user_name n)) (Some (nlp_user_type n)) of
        (Inr rag_response, client) \<Rightarrow>
          Inr ((mk_response q (rr_answer rag_response) True False)
                 \<lparr>confidence := Some (rr_confidence rag_response),
                  sources := Some (rr_sources rag_response),
                  raw_response := Some rag_response\<rparr>,
               n\<lparr>rag_client := client\<rparr>)
      | (Inl e, client) \<Rightarrow>
          Inr ((mk_response q apology False False)\<lparr>error := Some e\<rparr>,
               n\<lparr>rag_client := client\<rparr>)) = (Inr (r, n\<lparr>rag_client := c\<rparr>) :: py_error + response_data \<times> nlp_processor)"
    by (auto split: prod.splits sum.splits)
  show ?thesis
  proof (cases "detect_command_intent q")
    case None
    with False disp show ?thesis
      by (auto simp: process_query_def Let_def)
  next
    case (Some a)
    obtain i m where a: "a = (i, m)" by (cases a)
    from assms Some a have "i \<noteq> ''set_user_type''" "i \<noteq> ''set_user_name''" by auto
    from handle_command_frame[OF this, of m q n] obtain r where
      "handle_command i m q n = Inr (r, n)" by blast
    with Some a False disp show ?thesis
      by (auto simp: process_query_def Let_def)
  qed
qed

theorem process_query_keeps_identity_witness:
  "map_option fst (detect_command_intent ''help'') \<noteq> Some ''set_user_type'' \<and>
   map_option fst (detect_command_intent ''help'') \<noteq> Some ''set_user_name'' \<and>
   (\<exists>r n'. process_query default_config unreachable_service ''help''
              (nlp_processor fresh_manager) = Inr (r, n') \<and>
      nlp_user_name n' = nlp_user_name (nlp_processor fresh_manager) \<and>
      nlp_user_type n' = nlp_user_type (nlp_processor fresh_manager))"
proof -
  have d: "map_option fst (detect_command_intent ''help'') = Some ''help''" by code_simp
  have h1: "map_option fst (detect_command_intent ''help'') \<noteq> Some ''set_user_type''"
    unfolding d by simp
  have h2: "map_option fst (detect_command_intent ''help'') \<noteq> Some ''set_user_name''"
    unfolding d by simp
  from process_query_keeps_identity[OF h1 h2, of default_config unreachable_service
      "nlp_processor fresh_manager"] h1 h2
  show ?thesis by blast
qed

text \<open>
  Claim C10. \<^verbatim>\<open>clear_conversation_history\<close> empties the history and resets
  \<^verbatim>\<open>last_query\<close> and \<^verbatim>\<open>last_response\<close> to \<^verbatim>\<open>None\<close>, so a \<^verbatim>\<open>repeat_last_response\<close> right
  after it hands the fixed text "I haven't said anything yet." to the speech output,
  whatever had been said before.
\<close>

theorem repeat_after_clear:
  "last_query (clear_conversation_history m) = None \<and>
   last_response (clear_conversation_history m) = None \<and>
   conversation_history (clear_conversation_history m) = [] \<and>
   repeat_last_response (clear_conversation_history m) =
     speak_response (''I haven'' @ apostrophe @ ''t said anything yet.'') (clear_conversation_history m) \<and>
   spoken (trace (repeat_last_response (clear_conversation_history m))) =
     spoken (trace m) @ [''I haven'' @ apostrophe @ ''t said anything yet.'']"
  by (simp add: clear_conversation_history_def repeat_last_response_def speak_response_def
      emit_def spoken_def)

end
